theory Spec2Isabelle
  imports Main "HOL-Library.Product_Lexorder"
begin

section \<open>Data model of \<^verbatim>\<open>Scripts/crop_screenshots.py\<close>\<close>

text \<open>
  The script keeps two module-level settings, \<^verbatim>\<open>TILE_CROP_SIZE\<close> and
  \<^verbatim>\<open>TILE_OVERLAP\<close>, that the alignment tool may reassign while the program runs.
  Every function that reads them takes the current values as a record.
\<close>

record config =
  TILE_CROP_SIZE :: int
  TILE_OVERLAP :: int

text \<open>
  Class \<^verbatim>\<open>Screenshot\<close>: two integer world-space coordinates and two optional file
  paths. The lazily loaded image payloads are caches of the files and are not part of
  the model.
\<close>

record Screenshot =
  xCoordWS :: int
  zCoordWS :: int
  screenshot_filepath :: "string option"
  tile_filepath :: "string option"

text \<open>The exceptions of the Python run time that the modelled code can raise.\<close>

datatype py_error = IndexError | KeyError | ValueError | ZeroDivisionError | RuntimeError

subsection \<open>Formatting integers: \<^verbatim>\<open>str(int)\<close>\<close>

definition digit_char :: "nat \<Rightarrow> char" where
  "digit_char d = ''0123456789'' ! d"

fun str_nat :: "nat \<Rightarrow> string" where
  "str_nat n = (if n < 10 then [digit_char n] else str_nat (n div 10) @ [digit_char (n mod 10)])"

declare str_nat.simps [simp del]

definition str_int :: "int \<Rightarrow> string" where
  "str_int i = (if i < 0 then CHR ''-'' # str_nat (nat (- i)) else str_nat (nat i))"

text \<open>
  \<^verbatim>\<open>Screenshot.make_coordinate_string\<close> is the f-string
  \<^verbatim>\<open>f"Screenshot_{x}_{z}"\<close>; \<^verbatim>\<open>coordinate_string\<close> applies it to the tile's own
  coordinates.
\<close>

definition make_coordinate_string :: "int \<Rightarrow> int \<Rightarrow> string" where
  "make_coordinate_string x z = ''Screenshot_'' @ str_int x @ ''_'' @ str_int z"

definition coordinate_string :: "Screenshot \<Rightarrow> string" where
  "coordinate_string self = make_coordinate_string (xCoordWS self) (zCoordWS self)"

subsection \<open>Equality of Python objects and dictionaries keyed by strings\<close>

text \<open>
  The objects that meet in an \<^verbatim>\<open>==\<close> or as dictionary keys in this program are
  strings and \<^verbatim>\<open>Screenshot\<close> instances.
\<close>

datatype pyobj = Str string | Obj Screenshot

text \<open>
  \<^verbatim>\<open>Screenshot.__eq__\<close>: \<^verbatim>\<open>False\<close> unless the other operand is a
  \<^verbatim>\<open>Screenshot\<close>, then equality of both coordinates.
\<close>

fun Screenshot_eq :: "Screenshot \<Rightarrow> pyobj \<Rightarrow> bool" where
  "Screenshot_eq self (Obj other) =
     (xCoordWS self = xCoordWS other \<and> zCoordWS self = zCoordWS other)"
| "Screenshot_eq self (Str other) = False"

text \<open>
  \<^verbatim>\<open>a == b\<close>. Two strings compare by content. With a string on the left and a
  \<^verbatim>\<open>Screenshot\<close> on the right, \<^verbatim>\<open>str.__eq__\<close> answers
  \<^verbatim>\<open>NotImplemented\<close> and Python falls back to the reflected
  \<^verbatim>\<open>Screenshot.__eq__\<close> of the right operand.
\<close>

fun py_eq :: "pyobj \<Rightarrow> pyobj \<Rightarrow> bool" where
  "py_eq (Str a) (Str b) = (a = b)"
| "py_eq (Str a) (Obj b) = Screenshot_eq b (Str a)"
| "py_eq (Obj a) b = Screenshot_eq a b"

text \<open>
  A \<^verbatim>\<open>dict[str, Screenshot]\<close> as an association list in insertion order with
  unique keys. Assigning to a key that is present replaces the value in place.
\<close>

type_synonym pydict = "(string \<times> Screenshot) list"

fun dict_setitem :: "pydict \<Rightarrow> string \<Rightarrow> Screenshot \<Rightarrow> pydict" where
  "dict_setitem [] k v = [(k, v)]"
| "dict_setitem ((k', v') # d) k v =
     (if k' = k then (k', v) # d else (k', v') # dict_setitem d k v)"

text \<open>\<^verbatim>\<open>d[k]\<close> for a string \<^verbatim>\<open>k\<close>: the value, or \<^verbatim>\<open>KeyError\<close>.\<close>

definition dict_getitem :: "pydict \<Rightarrow> string \<Rightarrow> py_error + Screenshot" where
  "dict_getitem d k = (case map_of d k of None \<Rightarrow> Inl KeyError | Some v \<Rightarrow> Inr v)"

text \<open>
  \<^verbatim>\<open>key in d\<close> for an arbitrary object: the dictionary looks for a stored key with
  the hash of \<^verbatim>\<open>key\<close> that is the same object or compares equal to it
  (\<^verbatim>\<open>stored == key\<close>). The stored keys are strings, so none of them is the same
  object as a \<^verbatim>\<open>Screenshot\<close>; and \<^verbatim>\<open>Screenshot.__hash__\<close> is the hash of the
  coordinate string, so the hash never excludes the entry of that string: the comparison
  decides.
\<close>

definition dict_contains :: "pydict \<Rightarrow> pyobj \<Rightarrow> bool" where
  "dict_contains d key = list_ex (\<lambda>(stored, v). py_eq (Str stored) key) d"

section \<open>Grid units\<close>

text \<open>
  \<^verbatim>\<open>int(a / b)\<close> on two integers: \<^verbatim>\<open>ZeroDivisionError\<close> for a zero divisor,
  otherwise the quotient with its fractional part dropped (\<^verbatim>\<open>int\<close> rounds toward
  zero). Python computes \<^verbatim>\<open>a / b\<close> as the binary64 number nearest to the exact
  quotient; while \<open>\<bar>a\<bar> < 2 ^ 53\<close> that rounding never reaches the next integer, so
  dropping the fraction of the rounded and of the exact quotient give the same integer.
  The model computes with the exact quotient: it describes the code for coordinate
  differences below \<open>2 ^ 53\<close>.
\<close>

definition int_truediv :: "int \<Rightarrow> int \<Rightarrow> py_error + int" where
  "int_truediv a b =
     (if b = 0 then Inl ZeroDivisionError else Inr (sgn a * sgn b * (\<bar>a\<bar> div \<bar>b\<bar>)))"

text \<open>\<^verbatim>\<open>Screenshot.get_unit_coordinates\<close>: both quotients, the x one first.\<close>

definition get_unit_coordinates ::
  "Screenshot \<Rightarrow> int \<Rightarrow> int \<Rightarrow> int \<Rightarrow> py_error + int \<times> int" where
  "get_unit_coordinates self min_x min_z filename_coordinate_step =
     (case int_truediv (xCoordWS self - min_x) filename_coordinate_step of
        Inl e \<Rightarrow> Inl e
      | Inr ux \<Rightarrow>
          (case int_truediv (zCoordWS self - min_z) filename_coordinate_step of
             Inl e \<Rightarrow> Inl e
           | Inr uz \<Rightarrow> Inr (ux, uz)))"

section \<open>Class \<^verbatim>\<open>ScreenshotProcessor\<close>: the tile registry\<close>

record ScreenshotProcessor =
  screenshots :: "Screenshot list"
  mapped_screenshots :: pydict

text \<open>\<^verbatim>\<open>sort\<close>: Python's stable \<^verbatim>\<open>sorted\<close> with the key \<^verbatim>\<open>(xCoordWS, zCoordWS)\<close>.\<close>

definition sort_tile_key :: "Screenshot \<Rightarrow> int \<times> int" where
  "sort_tile_key screenshot = (xCoordWS screenshot, zCoordWS screenshot)"

definition sort_processor :: "ScreenshotProcessor \<Rightarrow> ScreenshotProcessor" where
  "sort_processor self = self\<lparr>screenshots := sort_key sort_tile_key (screenshots self)\<rparr>"

text \<open>
  \<^verbatim>\<open>__init__\<close>: index every tile under its coordinate string, raise
  \<^verbatim>\<open>RuntimeError\<close> ("Duplicate screenshots found") when two tiles shared a key, and
  sort a non-empty list.
\<close>

definition ScreenshotProcessor_init :: "Screenshot list \<Rightarrow> py_error + ScreenshotProcessor" where
  "ScreenshotProcessor_init tiles =
     (let mapped = foldl (\<lambda>d screenshot. dict_setitem d (coordinate_string screenshot) screenshot) [] tiles;
          self = \<lparr>screenshots = tiles, mapped_screenshots = mapped\<rparr>
      in if length tiles \<noteq> length mapped then Inl RuntimeError
         else if length tiles > 0 then Inr (sort_processor self)
         else Inr self)"

text \<open>
  \<^verbatim>\<open>add_screenshot\<close>: return at once when \<^verbatim>\<open>screenshot in self.mapped_screenshots\<close>;
  otherwise append, index under the coordinate string and sort.
\<close>

definition add_screenshot :: "ScreenshotProcessor \<Rightarrow> Screenshot \<Rightarrow> ScreenshotProcessor" where
  "add_screenshot self screenshot =
     (if dict_contains (mapped_screenshots self) (Obj screenshot) then self
      else sort_processor
             (self\<lparr>screenshots := screenshots self @ [screenshot],
                   mapped_screenshots :=
                     dict_setitem (mapped_screenshots self) (coordinate_string screenshot) screenshot\<rparr>))"

definition count :: "ScreenshotProcessor \<Rightarrow> nat" where
  "count self = length (screenshots self)"

text \<open>
  \<^verbatim>\<open>xs[i]\<close> for a literal index \<^verbatim>\<open>i \<ge> 0\<close>: \<^verbatim>\<open>IndexError\<close> past the end.
  \<^verbatim>\<open>min\<close> and \<^verbatim>\<open>max\<close> of a list raise \<^verbatim>\<open>ValueError\<close> on the empty list.
\<close>

definition py_index :: "'a list \<Rightarrow> nat \<Rightarrow> py_error + 'a" where
  "py_index xs i = (if i < length xs then Inr (xs ! i) else Inl IndexError)"

fun py_min :: "int list \<Rightarrow> py_error + int" where
  "py_min [] = Inl ValueError"
| "py_min (x # xs) = Inr (fold min xs x)"

fun py_max :: "int list \<Rightarrow> py_error + int" where
  "py_max [] = Inl ValueError"
| "py_max (x # xs) = Inr (fold max xs x)"

text \<open>
  The bounds scans. The comprehension's filter \<^verbatim>\<open>is not None\<close> keeps every tile:
  a coordinate is always an integer.
\<close>

definition min_x :: "ScreenshotProcessor \<Rightarrow> py_error + int" where
  "min_x self = py_min (map xCoordWS (screenshots self))"

definition max_x :: "ScreenshotProcessor \<Rightarrow> py_error + int" where
  "max_x self = py_max (map xCoordWS (screenshots self))"

definition min_z :: "ScreenshotProcessor \<Rightarrow> py_error + int" where
  "min_z self = py_min (map zCoordWS (screenshots self))"

definition max_z :: "ScreenshotProcessor \<Rightarrow> py_error + int" where
  "max_z self = py_max (map zCoordWS (screenshots self))"

text \<open>
  Property \<^verbatim>\<open>tile_step_size\<close>: reads \<^verbatim>\<open>self.screenshots[0]\<close> and
  \<^verbatim>\<open>self.screenshots[1]\<close> and returns the larger of the two coordinate distances.
  It is recomputed at every access.
\<close>

definition tile_step_size :: "ScreenshotProcessor \<Rightarrow> py_error + int" where
  "tile_step_size self =
     (case py_index (screenshots self) 0 of
        Inl e \<Rightarrow> Inl e
      | Inr tile_0 \<Rightarrow>
          (case py_index (screenshots self) 1 of
             Inl e \<Rightarrow> Inl e
           | Inr tile_1 \<Rightarrow>
               (let x_diff = \<bar>xCoordWS tile_0 - xCoordWS tile_1\<bar>;
                    z_diff = \<bar>zCoordWS tile_0 - zCoordWS tile_1\<bar>
                in Inr (max x_diff z_diff))))"

text \<open>
  \<^verbatim>\<open>find_neighbour\<close>: look the coordinate string of the shifted position up and turn
  a \<^verbatim>\<open>KeyError\<close> into \<^verbatim>\<open>None\<close>; any other exception would propagate.
\<close>

definition find_neighbour ::
  "ScreenshotProcessor \<Rightarrow> Screenshot \<Rightarrow> int \<Rightarrow> int \<Rightarrow> py_error + Screenshot option" where
  "find_neighbour self screenshot x_offset z_offset =
     (let x = xCoordWS screenshot + x_offset;
          z = zCoordWS screenshot + z_offset;
          neighbour_coordinate_lookup = make_coordinate_string x z
      in case dict_getitem (mapped_screenshots self) neighbour_coordinate_lookup of
           Inr found \<Rightarrow> Inr (Some found)
         | Inl KeyError \<Rightarrow> Inr None
         | Inl e \<Rightarrow> Inl e)"

section \<open>The compositor\<close>

text \<open>
  What \<^verbatim>\<open>composite_screenshot_tiles\<close> asks of the image library, in order:
  \<^verbatim>\<open>Image.new\<close> with the canvas size, one \<^verbatim>\<open>paste\<close> per tile with its origin, and
  the final \<^verbatim>\<open>save\<close>. The events record these calls with their arguments. Finding
  and decoding the image file of a tile (\<^verbatim>\<open>tile.tile_image\<close>, which opens
  \<^verbatim>\<open>tile.tile_filepath\<close>), encoding the result and releasing a tile's image
  (\<^verbatim>\<open>unload\<close>) belong to the library and the file system and are not modelled: the
  tiles of a composite are taken to have a readable tile image. Console output is left
  out.
\<close>

datatype io_event =
    ImageNew int int
  | ImagePaste Screenshot int int
  | ImageSave string

text \<open>
  The body of the \<^verbatim>\<open>for tile in sorted_tiles\<close> loop, and the loop. An exception
  ends the loop and keeps the events that happened before it.
\<close>

definition paste_tile ::
  "config \<Rightarrow> ScreenshotProcessor \<Rightarrow> int \<Rightarrow> int \<Rightarrow> int \<Rightarrow> Screenshot \<Rightarrow> py_error + io_event" where
  "paste_tile cfg self tile_min_x tile_min_z z_unit_range tile =
     (case tile_step_size self of
        Inl e \<Rightarrow> Inl e
      | Inr step \<Rightarrow>
          (case get_unit_coordinates tile tile_min_x tile_min_z step of
             Inl e \<Rightarrow> Inl e
           | Inr (x, z0) \<Rightarrow>
               (let z = z_unit_range - z0 - 1;
                    paste_tile_coord_x = x * TILE_CROP_SIZE cfg;
                    paste_tile_coord_z = z * TILE_CROP_SIZE cfg
                in if TILE_OVERLAP cfg \<noteq> 0
                   then (let displacement_x = TILE_OVERLAP cfg * x;
                             displacement_z = TILE_OVERLAP cfg * z
                         in Inr (ImagePaste tile (paste_tile_coord_x + displacement_x)
                                                 (paste_tile_coord_z + displacement_z)))
                   else Inr (ImagePaste tile paste_tile_coord_x paste_tile_coord_z))))"

fun paste_loop ::
  "config \<Rightarrow> ScreenshotProcessor \<Rightarrow> int \<Rightarrow> int \<Rightarrow> int \<Rightarrow> Screenshot list
     \<Rightarrow> (py_error + unit) \<times> io_event list" where
  "paste_loop cfg self tile_min_x tile_min_z z_unit_range [] = (Inr (), [])"
| "paste_loop cfg self tile_min_x tile_min_z z_unit_range (tile # rest) =
     (case paste_tile cfg self tile_min_x tile_min_z z_unit_range tile of
        Inl e \<Rightarrow> (Inl e, [])
      | Inr ev \<Rightarrow>
          (case paste_loop cfg self tile_min_x tile_min_z z_unit_range rest of
             (r, evs) \<Rightarrow> (r, ev # evs)))"

text \<open>
  \<^verbatim>\<open>composite_screenshot_tiles\<close>. The result is the outcome, \<open>Inl\<close> for the
  exception that ended the call, and the events up to that point.
\<close>

definition composite_screenshot_tiles ::
  "config \<Rightarrow> ScreenshotProcessor \<Rightarrow> Screenshot list \<Rightarrow> string
     \<Rightarrow> (py_error + unit) \<times> io_event list" where
  "composite_screenshot_tiles cfg self tiles output_filename =
     (case py_min (map xCoordWS tiles) of Inl e \<Rightarrow> (Inl e, []) | Inr tile_min_x \<Rightarrow>
     (case py_min (map zCoordWS tiles) of Inl e \<Rightarrow> (Inl e, []) | Inr tile_min_z \<Rightarrow>
     (case py_max (map xCoordWS tiles) of Inl e \<Rightarrow> (Inl e, []) | Inr tile_max_x \<Rightarrow>
     (case py_max (map zCoordWS tiles) of Inl e \<Rightarrow> (Inl e, []) | Inr tile_max_z \<Rightarrow>
     (let x_ws_range = tile_max_x - tile_min_x;
          z_ws_range = tile_max_z - tile_min_z
      in
     (case tile_step_size self of Inl e \<Rightarrow> (Inl e, []) | Inr step_x \<Rightarrow>
     (case int_truediv x_ws_range step_x of Inl e \<Rightarrow> (Inl e, []) | Inr qx \<Rightarrow>
     (case tile_step_size self of Inl e \<Rightarrow> (Inl e, []) | Inr step_z \<Rightarrow>
     (case int_truediv z_ws_range step_z of Inl e \<Rightarrow> (Inl e, []) | Inr qz \<Rightarrow>
     (let x_unit_range = qx + 1;
          z_unit_range = qz + 1;
          output_image_size_x = x_unit_range * TILE_CROP_SIZE cfg;
          output_image_size_z = z_unit_range * TILE_CROP_SIZE cfg;
          output_image_size_x =
            (if TILE_OVERLAP cfg \<noteq> 0
             then output_image_size_x + (x_unit_range - 1) * TILE_OVERLAP cfg
             else output_image_size_x);
          output_image_size_z =
            (if TILE_OVERLAP cfg \<noteq> 0
             then output_image_size_z + (z_unit_range - 1) * TILE_OVERLAP cfg
             else output_image_size_z);
          map_image = ImageNew output_image_size_x output_image_size_z;
          sorted_tiles = sort_key sort_tile_key tiles
      in
     (case paste_loop cfg self tile_min_x tile_min_z z_unit_range sorted_tiles of
        (Inl e, evs) \<Rightarrow> (Inl e, map_image # evs)
      | (Inr u, evs) \<Rightarrow> (Inr (), map_image # evs @ [ImageSave output_filename]))))))))))))"

section \<open>Other readers of the step size\<close>

text \<open>
  \<^verbatim>\<open>make_initial_tiles\<close>: for every registered tile the two directory numbers
  \<^verbatim>\<open>int(coord / self.tile_step_size)\<close>, in registry order. Copying the tile file to
  that directory is file-system work outside the model.
\<close>

fun initial_tiles_loop :: "ScreenshotProcessor \<Rightarrow> Screenshot list \<Rightarrow> py_error + (int \<times> int) list" where
  "initial_tiles_loop self [] = Inr []"
| "initial_tiles_loop self (screenshot # rest) =
     (case tile_step_size self of Inl e \<Rightarrow> Inl e | Inr step_x \<Rightarrow>
     (case int_truediv (xCoordWS screenshot) step_x of Inl e \<Rightarrow> Inl e | Inr normalized_x \<Rightarrow>
     (case tile_step_size self of Inl e \<Rightarrow> Inl e | Inr step_z \<Rightarrow>
     (case int_truediv (zCoordWS screenshot) step_z of Inl e \<Rightarrow> Inl e | Inr normalized_z \<Rightarrow>
     (case initial_tiles_loop self rest of
        Inl e \<Rightarrow> Inl e
      | Inr dirs \<Rightarrow> Inr ((normalized_x, normalized_z) # dirs))))))"

definition make_initial_tiles :: "ScreenshotProcessor \<Rightarrow> py_error + (int \<times> int) list" where
  "make_initial_tiles self = initial_tiles_loop self (screenshots self)"

text \<open>
  \<^verbatim>\<open>auto_find_crop\<close> up to the choice of the neighbour: the source tile is read
  from the index at the fixed position \<open>(5700, 3800)\<close>, then the neighbours one step
  above and below are looked up, and the absence of both is a \<^verbatim>\<open>RuntimeError\<close>.
  The row matching that follows works on pixel data.
\<close>

definition auto_find_crop_neighbour ::
  "ScreenshotProcessor \<Rightarrow> py_error + Screenshot \<times> Screenshot" where
  "auto_find_crop_neighbour self =
     (case dict_getitem (mapped_screenshots self) (make_coordinate_string 5700 3800) of
        Inl e \<Rightarrow> Inl e | Inr source_screenshot \<Rightarrow>
     (case tile_step_size self of Inl e \<Rightarrow> Inl e | Inr step_above \<Rightarrow>
     (case find_neighbour self source_screenshot 0 step_above of
        Inl e \<Rightarrow> Inl e | Inr screenshot_above \<Rightarrow>
     (case tile_step_size self of Inl e \<Rightarrow> Inl e | Inr step_below \<Rightarrow>
     (case find_neighbour self source_screenshot 0 (- step_below) of
        Inl e \<Rightarrow> Inl e | Inr screenshot_below \<Rightarrow>
     (case (if screenshot_above \<noteq> None then screenshot_above else screenshot_below) of
        None \<Rightarrow> Inl RuntimeError
      | Some neighbour_screenshot \<Rightarrow> Inr (source_screenshot, neighbour_screenshot)))))))"

section \<open>Consistency of a registry\<close>

text \<open>
  What \<^verbatim>\<open>__init__\<close> establishes and \<^verbatim>\<open>add_screenshot\<close> keeps: the tile list is in
  ascending \<open>(x, z)\<close> order, every index entry is filed under the coordinate string of
  its tile and that tile is in the list, and every tile of the list has an index entry
  for its coordinates.
\<close>

definition registry_inv :: "ScreenshotProcessor \<Rightarrow> bool" where
  "registry_inv self =
     (sorted (map sort_tile_key (screenshots self)) \<and>
      list_all (\<lambda>(k, v). k = coordinate_string v \<and> v \<in> set (screenshots self))
        (mapped_screenshots self) \<and>
      list_all (\<lambda>screenshot. coordinate_string screenshot \<in> fst ` set (mapped_screenshots self))
        (screenshots self))"

text \<open>
  The registries that the class can produce: the result of \<^verbatim>\<open>__init__\<close>, and what
  \<^verbatim>\<open>add_screenshot\<close> makes of one.
\<close>

inductive reachable :: "ScreenshotProcessor \<Rightarrow> bool" where
  init: "ScreenshotProcessor_init tiles = Inr self \<Longrightarrow> reachable self"
| add: "reachable self \<Longrightarrow> reachable (add_screenshot self screenshot)"


section \<open>The compositor as the specification words it\<close>





section \<open>Properties\<close>

subsection \<open>A coordinate string determines the coordinates\<close>

text \<open>
  The decimal digits of an integer contain neither \<open>_\<close> nor \<open>-\<close>, and two numbers with
  the same digits are equal: the index key \<^verbatim>\<open>Screenshot_{x}_{z}\<close> can be read back.
\<close>

lemma digit_cases:
  "d < 10 \<Longrightarrow> d = 0 \<or> d = 1 \<or> d = 2 \<or> d = 3 \<or> d = 4 \<or> d = 5 \<or> d = 6 \<or> d = 7 \<or> d = 8 \<or> d = (9::nat)"
  by (simp add: eval_nat_numeral less_Suc_eq) 

lemma digit_char_value: "d < 10 \<Longrightarrow> of_char (digit_char d) = 48 + d"
  by (auto simp: digit_char_def eval_nat_numeral less_Suc_eq)

lemma digit_char_not_sep: "d < 10 \<Longrightarrow> digit_char d \<noteq> CHR ''_'' \<and> digit_char d \<noteq> CHR ''-''"
  by (auto simp: digit_char_def eval_nat_numeral less_Suc_eq)

lemma digit_char_inj:
  assumes "d < 10" and "e < 10" and "digit_char d = digit_char e"
  shows "d = e"
proof -
  have "(of_char (digit_char d) :: nat) = of_char (digit_char e)"
    by (simp only: assms(3))
  then have "48 + d = 48 + e"
    by (simp only: digit_char_value [OF assms(1)] digit_char_value [OF assms(2)])
  then show ?thesis by (simp only: add_left_cancel)
qed

lemma str_nat_small: "n < 10 \<Longrightarrow> str_nat n = [digit_char n]"
  by (subst str_nat.simps) simp

lemma str_nat_large:
  "\<not> n < 10 \<Longrightarrow> str_nat n = str_nat (n div 10) @ [digit_char (n mod 10)]"
  by (subst str_nat.simps) simp

lemma str_nat_not_Nil: "str_nat n \<noteq> []"
proof (cases "n < 10")
  case True
  show ?thesis unfolding str_nat_small [OF True] by simp
next
  case False
  show ?thesis unfolding str_nat_large [OF False] by simp
qed

lemma mod_10_digit: "(n::nat) mod 10 < 10"
  by simp

lemma str_nat_chars: "c \<in> set (str_nat n) \<Longrightarrow> c \<noteq> CHR ''_'' \<and> c \<noteq> CHR ''-''"
proof (induction n rule: str_nat.induct)
  case (1 n)
  show ?case
  proof (cases "n < 10")
    case True
    from "1.prems" have "c = digit_char n"
      unfolding str_nat_small [OF True] by simp
    then show ?thesis by (simp only: digit_char_not_sep [OF True] simp_thms)
  next
    case False
    from "1.prems" have "c \<in> set (str_nat (n div 10)) \<or> c = digit_char (n mod 10)"
      unfolding str_nat_large [OF False] by auto
    then show ?thesis
    proof
      assume "c \<in> set (str_nat (n div 10))"
      then show ?thesis by (rule "1.IH" [OF False])
    next
      assume "c = digit_char (n mod 10)"
      then show ?thesis by (simp only: digit_char_not_sep [OF mod_10_digit] simp_thms)
    qed
  qed
qed

lemma str_nat_length: "(length (str_nat n) = 1) = (n < 10)"
proof (cases "n < 10")
  case True
  then show ?thesis unfolding str_nat_small [OF True] by simp
next
  case False
  have "length (str_nat (n div 10)) \<noteq> 0"
    using str_nat_not_Nil [of "n div 10"] by blast
  then show ?thesis unfolding str_nat_large [OF False] using False by simp
qed

lemma str_nat_inj: "str_nat n = str_nat m \<Longrightarrow> n = m"
proof (induction n arbitrary: m rule: str_nat.induct)
  case (1 n)
  have "(length (str_nat n) = 1) = (length (str_nat m) = 1)"
    by (simp only: "1.prems")
  then have len: "(n < 10) = (m < 10)"
    by (simp only: str_nat_length)
  show ?case
  proof (cases "n < 10")
    case True
    with len have m: "m < 10" by blast
    from "1.prems" have "digit_char n = digit_char m"
      unfolding str_nat_small [OF True] str_nat_small [OF m] by simp
    with True m show ?thesis by (rule digit_char_inj)
  next
    case False
    with len have m: "\<not> m < 10" by blast
    from "1.prems"
    have eq: "str_nat (n div 10) @ [digit_char (n mod 10)] = str_nat (m div 10) @ [digit_char (m mod 10)]"
      unfolding str_nat_large [OF False] str_nat_large [OF m] .
    from eq have "str_nat (n div 10) = str_nat (m div 10)"
      by (simp only: append1_eq_conv)
    then have q: "n div 10 = m div 10"
      by (rule "1.IH" [OF False])
    from eq have "digit_char (n mod 10) = digit_char (m mod 10)"
      by (simp only: append1_eq_conv)
    then have r: "n mod 10 = m mod 10"
      by (rule digit_char_inj [OF mod_10_digit mod_10_digit])
    have "n = 10 * (n div 10) + n mod 10" by simp
    also have "\<dots> = 10 * (m div 10) + m mod 10" by (simp only: q r)
    also have "\<dots> = m" by simp
    finally show ?thesis .
  qed
qed

lemma str_int_chars: "CHR ''_'' \<notin> set (str_int i)"
  using str_nat_chars by (auto simp: str_int_def)

lemma str_nat_hd: "hd (str_nat n) \<noteq> CHR ''-''"
  using str_nat_chars [of "hd (str_nat n)" n] str_nat_not_Nil [of n] by simp

lemma str_int_inj: "str_int i = str_int j \<Longrightarrow> i = j"
proof -
  assume eq: "str_int i = str_int j"
  have neg: "(i < 0) = (j < 0)"
  proof (rule ccontr)
    assume "(i < 0) \<noteq> (j < 0)"
    then consider "i < 0" "\<not> j < 0" | "\<not> i < 0" "j < 0" by blast
    then show False
    proof cases
      case 1
      with eq have "CHR ''-'' # str_nat (nat (- i)) = str_nat (nat j)" by (simp add: str_int_def)
      then have "hd (str_nat (nat j)) = CHR ''-''" by (metis list.sel(1))
      then show False using str_nat_hd by blast
    next
      case 2
      with eq have "CHR ''-'' # str_nat (nat (- j)) = str_nat (nat i)" by (simp add: str_int_def)
      then have "hd (str_nat (nat i)) = CHR ''-''" by (metis list.sel(1))
      then show False using str_nat_hd by blast
    qed
  qed
  show "i = j"
  proof (cases "i < 0")
    case True
    with neg eq have "str_nat (nat (- i)) = str_nat (nat (- j))" by (simp add: str_int_def)
    then have "nat (- i) = nat (- j)" by (rule str_nat_inj)
    with True neg show ?thesis by simp
  next
    case False
    with neg eq have "str_nat (nat i) = str_nat (nat j)" by (simp add: str_int_def)
    then have "nat i = nat j" by (rule str_nat_inj)
    with False neg show ?thesis by simp
  qed
qed

lemma make_coordinate_string_inj:
  "(make_coordinate_string x z = make_coordinate_string x' z') = (x = x' \<and> z = z')"
proof
  assume "make_coordinate_string x z = make_coordinate_string x' z'"
  then have "str_int x @ CHR ''_'' # str_int z = str_int x' @ CHR ''_'' # str_int z'"
    by (simp add: make_coordinate_string_def)
  then have "str_int x = str_int x' \<and> str_int z = str_int z'"
    using str_int_chars append_Cons_eq_iff by metis
  then show "x = x' \<and> z = z'" using str_int_inj by blast
qed simp

subsection \<open>The registry operations keep the registry consistent\<close>

lemma coordinate_string_eq:
  "(coordinate_string s = make_coordinate_string x z) = (xCoordWS s = x \<and> zCoordWS s = z)"
  by (simp only: coordinate_string_def make_coordinate_string_inj)

lemma dict_contains_Screenshot: "dict_contains d (Obj screenshot) = False"
  by (induction d) (auto simp: dict_contains_def)

lemma set_dict_setitem: "set (dict_setitem d k v) \<subseteq> insert (k, v) (set d)"
  by (induction d k v rule: dict_setitem.induct) auto

lemma keys_dict_setitem: "fst ` set (dict_setitem d k v) = insert k (fst ` set d)"
  by (induction d k v rule: dict_setitem.induct) auto

lemma add_screenshot_appends:
  "add_screenshot self screenshot =
     sort_processor (self\<lparr>screenshots := screenshots self @ [screenshot],
       mapped_screenshots :=
         dict_setitem (mapped_screenshots self) (coordinate_string screenshot) screenshot\<rparr>)"
  by (simp only: add_screenshot_def dict_contains_Screenshot if_False)

lemma screenshots_add_screenshot:
  "screenshots (add_screenshot self screenshot) =
     sort_key sort_tile_key (screenshots self @ [screenshot])"
  by (simp add: add_screenshot_appends sort_processor_def)

lemma mapped_add_screenshot:
  "mapped_screenshots (add_screenshot self screenshot) =
     dict_setitem (mapped_screenshots self) (coordinate_string screenshot) screenshot"
  by (simp add: add_screenshot_appends sort_processor_def)

lemma registry_inv_iff:
  "registry_inv self =
     (sorted (map sort_tile_key (screenshots self)) \<and>
      (\<forall>(k, v) \<in> set (mapped_screenshots self). k = coordinate_string v \<and> v \<in> set (screenshots self)) \<and>
      (\<forall>t \<in> set (screenshots self). coordinate_string t \<in> fst ` set (mapped_screenshots self)))"
  by (simp add: registry_inv_def list_all_iff)

lemma registry_inv_add_screenshot:
  assumes "registry_inv self"
  shows "registry_inv (add_screenshot self screenshot)"
proof -
  let ?d = "mapped_screenshots self"
  let ?d' = "dict_setitem ?d (coordinate_string screenshot) screenshot"
  let ?l' = "sort_key sort_tile_key (screenshots self @ [screenshot])"
  from assms have entries: "\<forall>(k, v) \<in> set ?d. k = coordinate_string v \<and> v \<in> set (screenshots self)"
    and keys: "\<forall>t \<in> set (screenshots self). coordinate_string t \<in> fst ` set ?d"
    by (simp_all add: registry_inv_iff)
  have 1: "sorted (map sort_tile_key ?l')" by simp
  have 2: "\<forall>(k, v) \<in> set ?d'. k = coordinate_string v \<and> v \<in> set ?l'"
    using entries set_dict_setitem [of ?d "coordinate_string screenshot" screenshot] by auto
  have 3: "\<forall>t \<in> set ?l'. coordinate_string t \<in> fst ` set ?d'"
    using keys by (auto simp: keys_dict_setitem)
  from 1 2 3 show ?thesis
    by (simp only: registry_inv_iff screenshots_add_screenshot mapped_add_screenshot simp_thms)
qed

lemma foldl_setitem_entries:
  "(k, v) \<in> set (foldl (\<lambda>d t. dict_setitem d (coordinate_string t) t) acc tiles) \<Longrightarrow>
     (k, v) \<in> set acc \<or> (k = coordinate_string v \<and> v \<in> set tiles)"
proof (induction tiles arbitrary: acc)
  case Nil
  then show ?case by simp
next
  case (Cons t tiles)
  from Cons.prems
  have "(k, v) \<in> set (dict_setitem acc (coordinate_string t) t) \<or> (k = coordinate_string v \<and> v \<in> set tiles)"
    using Cons.IH [of "dict_setitem acc (coordinate_string t) t"] by simp
  then show ?case using set_dict_setitem [of acc "coordinate_string t" t] by auto
qed

lemma foldl_setitem_keys:
  "fst ` set (foldl (\<lambda>d t. dict_setitem d (coordinate_string t) t) acc tiles) =
     fst ` set acc \<union> coordinate_string ` set tiles"
proof (induction tiles arbitrary: acc)
  case Nil
  then show ?case by simp
next
  case (Cons t tiles)
  show ?case by (simp add: Cons.IH keys_dict_setitem)
qed

lemma registry_inv_init:
  assumes "ScreenshotProcessor_init tiles = Inr self"
  shows "registry_inv self"
proof -
  let ?d = "foldl (\<lambda>d t. dict_setitem d (coordinate_string t) t) [] tiles"
  have entries: "\<forall>(k, v) \<in> set ?d. k = coordinate_string v \<and> v \<in> set tiles"
    using foldl_setitem_entries [of _ _ "[]" tiles] by auto
  have keys: "\<forall>t \<in> set tiles. coordinate_string t \<in> fst ` set ?d"
    by (simp add: foldl_setitem_keys)
  show ?thesis
  proof (cases "tiles = []")
    case True
    with assms have "self = \<lparr>screenshots = [], mapped_screenshots = []\<rparr>"
      by (simp add: ScreenshotProcessor_init_def)
    then show ?thesis by (simp add: registry_inv_def)
  next
    case False
    with assms have self: "self = sort_processor \<lparr>screenshots = tiles, mapped_screenshots = ?d\<rparr>"
      by (simp add: ScreenshotProcessor_init_def Let_def split: if_splits)
    show ?thesis
      unfolding registry_inv_iff self sort_processor_def using entries keys by simp
  qed
qed

lemma reachable_registry_inv: "reachable self \<Longrightarrow> registry_inv self"
  by (induction rule: reachable.induct) (simp_all add: registry_inv_init registry_inv_add_screenshot)

subsection \<open>Neighbour lookup, step size and duplicates\<close>

lemma find_neighbour_lookup:
  "find_neighbour self screenshot x_offset z_offset =
     Inr (map_of (mapped_screenshots self)
            (make_coordinate_string (xCoordWS screenshot + x_offset) (zCoordWS screenshot + z_offset)))"
  by (simp add: find_neighbour_def dict_getitem_def split: option.split)

text \<open>
  Claim C6. In a consistent registry, as every registry that the class produces is
  (lemma \<open>reachable_registry_inv\<close>), \<^verbatim>\<open>find_neighbour(t, dx, dz)\<close> never raises: it
  returns a registered tile whose coordinates are \<open>(t.x + dx, t.z + dz)\<close> when the
  registry holds a tile at that position, and \<^verbatim>\<open>None\<close> when it holds none.
\<close>

theorem find_neighbour_total:
  assumes "registry_inv self"
  shows "(\<exists>n. find_neighbour self t dx dz = Inr (Some n) \<and> n \<in> set (screenshots self) \<and>
              xCoordWS n = xCoordWS t + dx \<and> zCoordWS n = zCoordWS t + dz) \<or>
         (find_neighbour self t dx dz = Inr None \<and>
              \<not> (\<exists>n \<in> set (screenshots self).
                    xCoordWS n = xCoordWS t + dx \<and> zCoordWS n = zCoordWS t + dz))"
proof -
  let ?key = "make_coordinate_string (xCoordWS t + dx) (zCoordWS t + dz)"
  let ?d = "mapped_screenshots self"
  from assms have entries: "\<forall>(k, v) \<in> set ?d. k = coordinate_string v \<and> v \<in> set (screenshots self)"
    and keys: "\<forall>s \<in> set (screenshots self). coordinate_string s \<in> fst ` set ?d"
    by (simp_all add: registry_inv_iff)
  show ?thesis
  proof (cases "map_of ?d ?key")
    case None
    then have absent: "?key \<notin> fst ` set ?d"
      by (simp add: map_of_eq_None_iff)
    have "\<not> (\<exists>n \<in> set (screenshots self). xCoordWS n = xCoordWS t + dx \<and> zCoordWS n = zCoordWS t + dz)"
    proof
      assume "\<exists>n \<in> set (screenshots self). xCoordWS n = xCoordWS t + dx \<and> zCoordWS n = zCoordWS t + dz"
      then obtain n where n: "n \<in> set (screenshots self)"
        and c: "xCoordWS n = xCoordWS t + dx \<and> zCoordWS n = zCoordWS t + dz" by blast
      from c have "coordinate_string n = ?key" by (simp only: coordinate_string_eq)
      moreover from keys n have "coordinate_string n \<in> fst ` set ?d" by blast
      ultimately have "?key \<in> fst ` set ?d" by (simp only:)
      with absent show False by blast
    qed
    with None show ?thesis by (simp add: find_neighbour_lookup)
  next
    case (Some n)
    then have "(?key, n) \<in> set ?d" by (rule map_of_SomeD)
    with entries have k: "?key = coordinate_string n" and n: "n \<in> set (screenshots self)"
      by auto
    from k have "xCoordWS n = xCoordWS t + dx \<and> zCoordWS n = zCoordWS t + dz"
      by (simp only: coordinate_string_eq [symmetric])
    with Some n show ?thesis by (simp add: find_neighbour_lookup)
  qed
qed

theorem find_neighbour_total_witness:
  "(let t00 = \<lparr>xCoordWS = 0, zCoordWS = 0, screenshot_filepath = None, tile_filepath = Some ''in/a/m_0_0_tile.png''\<rparr>;
        t10 = \<lparr>xCoordWS = 100, zCoordWS = 0, screenshot_filepath = None, tile_filepath = Some ''in/a/m_100_0_tile.png''\<rparr>;
        registry = add_screenshot (add_screenshot \<lparr>screenshots = [], mapped_screenshots = []\<rparr> t00) t10
    in registry_inv registry \<and>
       find_neighbour registry t00 100 0 = Inr (Some t10) \<and>
       find_neighbour registry t00 0 100 = Inr None)"
proof -
  define t00 where "t00 = \<lparr>xCoordWS = 0, zCoordWS = 0, screenshot_filepath = None, tile_filepath = Some ''in/a/m_0_0_tile.png''\<rparr>"
  define t10 where "t10 = \<lparr>xCoordWS = 100, zCoordWS = 0, screenshot_filepath = None, tile_filepath = Some ''in/a/m_100_0_tile.png''\<rparr>"
  define registry where "registry = add_screenshot (add_screenshot \<lparr>screenshots = [], mapped_screenshots = []\<rparr> t00) t10"
  have tiles: "screenshots registry = [t00, t10]"
    by (simp add: registry_def screenshots_add_screenshot t00_def t10_def sort_tile_key_def)
  have inv: "registry_inv registry"
    unfolding registry_def
    by (intro registry_inv_add_screenshot) (simp add: registry_inv_def)
  have right: "find_neighbour registry t00 100 0 = Inr (Some t10)"
    using find_neighbour_total [OF inv, of t00 100 0] tiles
    by (auto simp: t00_def t10_def)
  have up: "find_neighbour registry t00 0 100 = Inr None"
    using find_neighbour_total [OF inv, of t00 0 100] tiles
    by (auto simp: t00_def t10_def)
  from inv right up show ?thesis
    by (simp add: Let_def t00_def t10_def registry_def)
qed

text \<open>
  Claim C7. In a consistent registry with at least two tiles, \<^verbatim>\<open>tile_step_size\<close> is
  \<open>max \<bar>x0 - x1\<bar> \<bar>z0 - z1\<bar>\<close> for the first two tiles of the registry in ascending
  \<open>(x, z)\<close> order: the class keeps its tile list in that order.
\<close>

theorem tile_step_size_first_two:
  assumes "registry_inv self" and "2 \<le> length (screenshots self)"
  shows "(let sorted_tiles = sort_key sort_tile_key (screenshots self);
              tile_0 = sorted_tiles ! 0;
              tile_1 = sorted_tiles ! 1
          in tile_step_size self =
               Inr (max \<bar>xCoordWS tile_0 - xCoordWS tile_1\<bar> \<bar>zCoordWS tile_0 - zCoordWS tile_1\<bar>))"
proof -
  from assms(1) have "sorted (map sort_tile_key (screenshots self))"
    by (simp add: registry_inv_iff)
  then have "sort_key sort_tile_key (screenshots self) = screenshots self"
    by (rule sort_key_id_if_sorted)
  moreover from assms(2) have "screenshots self \<noteq> []" and "Suc 0 < length (screenshots self)"
    by auto
  ultimately show ?thesis
    by (simp add: tile_step_size_def py_index_def Let_def)
qed

theorem tile_step_size_first_two_witness:
  "(let t1 = \<lparr>xCoordWS = 200, zCoordWS = 0, screenshot_filepath = None, tile_filepath = Some ''in/a/m_200_0_tile.png''\<rparr>;
        t2 = \<lparr>xCoordWS = 0, zCoordWS = 100, screenshot_filepath = None, tile_filepath = Some ''in/a/m_0_100_tile.png''\<rparr>;
        t3 = \<lparr>xCoordWS = 0, zCoordWS = 0, screenshot_filepath = None, tile_filepath = Some ''in/a/m_0_0_tile.png''\<rparr>;
        registry = add_screenshot (add_screenshot (add_screenshot
                     \<lparr>screenshots = [], mapped_screenshots = []\<rparr> t1) t2) t3
    in registry_inv registry \<and> 2 \<le> length (screenshots registry) \<and>
       tile_step_size registry = Inr 100)"
proof -
  define t1 where "t1 = \<lparr>xCoordWS = 200, zCoordWS = 0, screenshot_filepath = None, tile_filepath = Some ''in/a/m_200_0_tile.png''\<rparr>"
  define t2 where "t2 = \<lparr>xCoordWS = 0, zCoordWS = 100, screenshot_filepath = None, tile_filepath = Some ''in/a/m_0_100_tile.png''\<rparr>"
  define t3 where "t3 = \<lparr>xCoordWS = 0, zCoordWS = 0, screenshot_filepath = None, tile_filepath = Some ''in/a/m_0_0_tile.png''\<rparr>"
  define registry where "registry = add_screenshot (add_screenshot (add_screenshot
                     \<lparr>screenshots = [], mapped_screenshots = []\<rparr> t1) t2) t3"
  have tiles: "screenshots registry = [t3, t2, t1]"
    by (simp add: registry_def screenshots_add_screenshot t1_def t2_def t3_def sort_tile_key_def)
  have inv: "registry_inv registry"
    unfolding registry_def
    by (intro registry_inv_add_screenshot) (simp add: registry_inv_def)
  have len: "2 \<le> length (screenshots registry)"
    by (simp add: tiles)
  have "tile_step_size registry = Inr 100"
    using tile_step_size_first_two [OF inv len]
    by (simp add: tiles Let_def t1_def t2_def t3_def sort_tile_key_def)
  with inv len show ?thesis
    by (simp add: Let_def t1_def t2_def t3_def registry_def)
qed

text \<open>
  Claim C1. The claim is that adding a tile at coordinates already registered changes
  nothing and that adding a tile at \<open>(0, 0)\<close> twice to the empty registry gives size
  1. The membership test of \<^verbatim>\<open>add_screenshot\<close> compares the \<^verbatim>\<open>Screenshot\<close> with the
  string keys of the index and is never true, so the code appends the duplicate: the
  size is 2, the index entry of \<open>(0, 0)\<close> is overwritten with the second tile, and the
  step size read from the two equal first tiles is 0.
\<close>

theorem add_screenshot_duplicate_appended:
  "(let t = \<lparr>xCoordWS = 0, zCoordWS = 0, screenshot_filepath = Some ''in/a/m_0_0.png'',
               tile_filepath = None\<rparr>;
        t' = \<lparr>xCoordWS = 0, zCoordWS = 0, screenshot_filepath = None,
                tile_filepath = Some ''in/a/m_0_0_tile.png''\<rparr>;
        empty = \<lparr>screenshots = [], mapped_screenshots = []\<rparr>
    in count (add_screenshot empty t) = 1 \<and>
       count (add_screenshot (add_screenshot empty t) t) = 2 \<and>
       screenshots (add_screenshot (add_screenshot empty t) t') = [t, t'] \<and>
       dict_getitem (mapped_screenshots (add_screenshot (add_screenshot empty t) t'))
         (make_coordinate_string 0 0) = Inr t' \<and>
       tile_step_size (add_screenshot (add_screenshot empty t) t') = Inr 0)"
  by (simp add: Let_def count_def screenshots_add_screenshot mapped_add_screenshot sort_tile_key_def
      dict_getitem_def coordinate_string_def tile_step_size_def py_index_def)

subsection \<open>What the compositor computes\<close>

lemma py_min_Min: "xs \<noteq> [] \<Longrightarrow> py_min xs = Inr (Min (set xs))"
proof (cases xs)
  case Nil
  then show "xs \<noteq> [] \<Longrightarrow> ?thesis" by simp
next
  case (Cons x rest)
  have "Min (set (x # rest)) = fold min rest x" by (rule Min.set_eq_fold)
  with Cons show ?thesis by (simp only: py_min.simps)
qed

lemma py_max_Max: "xs \<noteq> [] \<Longrightarrow> py_max xs = Inr (Max (set xs))"
proof (cases xs)
  case Nil
  then show "xs \<noteq> [] \<Longrightarrow> ?thesis" by simp
next
  case (Cons x rest)
  have "Max (set (x # rest)) = fold max rest x" by (rule Max.set_eq_fold)
  with Cons show ?thesis by (simp only: py_max.simps)
qed






subsection \<open>Canvas size and paste origins\<close>







text \<open>
  Claim C4. The registry holds exactly the tiles \<open>(0, 0)\<close>, \<open>(100, 0)\<close>, \<open>(0, 100)\<close> and
  \<open>(100, 100)\<close>; its step size is 100. With crop size 50 and overlap 0, compositing
  all of them creates a canvas of 100 by 100 pixels and pastes tile \<open>(0, 0)\<close> at
  \<open>(0, 50)\<close>, the bottom-left cell.
\<close>

theorem composite_scenario:
  "(let t00 = \<lparr>xCoordWS = 0, zCoordWS = 0, screenshot_filepath = None, tile_filepath = Some ''in/a/m_0_0_tile.png''\<rparr>;
        t10 = \<lparr>xCoordWS = 100, zCoordWS = 0, screenshot_filepath = None, tile_filepath = Some ''in/a/m_100_0_tile.png''\<rparr>;
        t01 = \<lparr>xCoordWS = 0, zCoordWS = 100, screenshot_filepath = None, tile_filepath = Some ''in/a/m_0_100_tile.png''\<rparr>;
        t11 = \<lparr>xCoordWS = 100, zCoordWS = 100, screenshot_filepath = None, tile_filepath = Some ''in/a/m_100_100_tile.png''\<rparr>;
        registry = add_screenshot (add_screenshot (add_screenshot (add_screenshot
                     \<lparr>screenshots = [], mapped_screenshots = []\<rparr> t00) t10) t01) t11;
        cfg = \<lparr>TILE_CROP_SIZE = 50, TILE_OVERLAP = 0\<rparr>
    in tile_step_size registry = Inr 100 \<and>
       composite_screenshot_tiles cfg registry (screenshots registry) ''map.jpeg'' =
         (Inr (),
          [ImageNew 100 100, ImagePaste t00 0 50, ImagePaste t01 0 0, ImagePaste t10 50 50,
           ImagePaste t11 50 0, ImageSave ''map.jpeg'']))"
  by (simp add: Let_def screenshots_add_screenshot sort_tile_key_def tile_step_size_def py_index_def
      composite_screenshot_tiles_def paste_tile_def get_unit_coordinates_def int_truediv_def)

subsection \<open>Rounding of grid units, empty input and small registries\<close>





text \<open>
  Claim C9. Compositing an empty tile list raises an exception (\<^verbatim>\<open>ValueError\<close>, from
  \<^verbatim>\<open>min\<close> of an empty list) before any canvas is created or file saved: no image event
  has happened. On a registry without tiles each of the four bounds scans raises the
  same exception instead of returning a value.
\<close>

theorem empty_input_fails:
  "composite_screenshot_tiles cfg self [] output_filename = (Inl ValueError, []) \<and>
   (screenshots self = [] \<longrightarrow>
      min_x self = Inl ValueError \<and> max_x self = Inl ValueError \<and>
      min_z self = Inl ValueError \<and> max_z self = Inl ValueError)"
  by (simp add: composite_screenshot_tiles_def min_x_def max_x_def min_z_def max_z_def)

theorem empty_input_fails_witness:
  "(let registry = \<lparr>screenshots = [], mapped_screenshots = []\<rparr>
    in screenshots registry = [] \<and>
       composite_screenshot_tiles \<lparr>TILE_CROP_SIZE = 550, TILE_OVERLAP = - 7\<rparr> registry [] ''map.jpeg'' =
         (Inl ValueError, []) \<and>
       min_x registry = Inl ValueError \<and> max_x registry = Inl ValueError \<and>
       min_z registry = Inl ValueError \<and> max_z registry = Inl ValueError)"
  using empty_input_fails [of "\<lparr>TILE_CROP_SIZE = 550, TILE_OVERLAP = - 7\<rparr>"
      "\<lparr>screenshots = [], mapped_screenshots = []\<rparr>" "''map.jpeg''"]
  by (simp add: Let_def)

lemma tile_step_size_IndexError:
  "length (screenshots self) < 2 \<Longrightarrow> tile_step_size self = Inl IndexError"
  by (cases "screenshots self") (simp_all add: tile_step_size_def py_index_def)

text \<open>
  Claim C10, as stated, fails for one of the operations it names. On the empty registry
  the loop of \<^verbatim>\<open>make_initial_tiles\<close> has no iteration, the step size is never read,
  and the call completes: initial tile generation does not need two registered tiles.
\<close>

theorem make_initial_tiles_empty_registry:
  "length (screenshots \<lparr>screenshots = [], mapped_screenshots = []\<rparr>) < 2 \<and>
   make_initial_tiles \<lparr>screenshots = [], mapped_screenshots = []\<rparr> = Inr []"
  by (simp add: make_initial_tiles_def)

text \<open>
  Claim C10, amended. On a registry with fewer than two tiles, reading
  \<^verbatim>\<open>tile_step_size\<close> raises \<^verbatim>\<open>IndexError\<close>. Compositing then fails before any canvas
  exists, with \<^verbatim>\<open>ValueError\<close> for an empty tile list and \<^verbatim>\<open>IndexError\<close> otherwise;
  \<^verbatim>\<open>auto_find_crop\<close> fails with \<^verbatim>\<open>KeyError\<close> or \<^verbatim>\<open>IndexError\<close>; and
  \<^verbatim>\<open>make_initial_tiles\<close> raises \<^verbatim>\<open>IndexError\<close> when the registry holds one tile,
  while on the empty registry it completes without reading the step size.
\<close>

theorem step_size_needs_two_tiles:
  assumes "length (screenshots self) < 2"
  shows "tile_step_size self = Inl IndexError \<and>
         composite_screenshot_tiles cfg self tiles output_filename =
           (if tiles = [] then (Inl ValueError, []) else (Inl IndexError, [])) \<and>
         (auto_find_crop_neighbour self = Inl KeyError \<or>
          auto_find_crop_neighbour self = Inl IndexError) \<and>
         make_initial_tiles self = (if screenshots self = [] then Inr [] else Inl IndexError)"
proof -
  note step = tile_step_size_IndexError [OF assms]
  have composite: "composite_screenshot_tiles cfg self tiles output_filename =
           (if tiles = [] then (Inl ValueError, []) else (Inl IndexError, []))"
  proof (cases "tiles = []")
    case True
    then show ?thesis by (simp add: composite_screenshot_tiles_def)
  next
    case False
    then have xs: "map xCoordWS tiles \<noteq> []" and zs: "map zCoordWS tiles \<noteq> []" by simp_all
    from False show ?thesis
      by (simp add: composite_screenshot_tiles_def py_min_Min [OF xs] py_min_Min [OF zs]
          py_max_Max [OF xs] py_max_Max [OF zs] step del: set_map)
  qed
  have crop: "auto_find_crop_neighbour self = Inl KeyError \<or>
          auto_find_crop_neighbour self = Inl IndexError"
    by (simp add: auto_find_crop_neighbour_def dict_getitem_def step split: option.split)
  have initial: "make_initial_tiles self = (if screenshots self = [] then Inr [] else Inl IndexError)"
    by (cases "screenshots self") (simp_all add: make_initial_tiles_def step)
  from step composite crop initial show ?thesis by (simp only: simp_thms)
qed

theorem step_size_needs_two_tiles_witness:
  "(let tile = \<lparr>xCoordWS = 5700, zCoordWS = 3800, screenshot_filepath = None, tile_filepath = Some ''in/a/m_5700_3800_tile.png''\<rparr>;
        registry = add_screenshot \<lparr>screenshots = [], mapped_screenshots = []\<rparr> tile
    in length (screenshots registry) < 2 \<and>
       tile_step_size registry = Inl IndexError \<and>
       composite_screenshot_tiles \<lparr>TILE_CROP_SIZE = 550, TILE_OVERLAP = - 7\<rparr> registry
         (screenshots registry) ''map.jpeg'' = (Inl IndexError, []) \<and>
       auto_find_crop_neighbour registry = Inl IndexError \<and>
       make_initial_tiles registry = Inl IndexError)"
proof -
  define tile where "tile = \<lparr>xCoordWS = 5700, zCoordWS = 3800, screenshot_filepath = None, tile_filepath = Some ''in/a/m_5700_3800_tile.png''\<rparr>"
  define registry where "registry = add_screenshot \<lparr>screenshots = [], mapped_screenshots = []\<rparr> tile"
  have tiles: "screenshots registry = [tile]"
    by (simp add: registry_def screenshots_add_screenshot)
  have len: "length (screenshots registry) < 2" by (simp add: tiles)
  have source: "dict_getitem (mapped_screenshots registry) (make_coordinate_string 5700 3800) = Inr tile"
    by (simp add: registry_def mapped_add_screenshot dict_getitem_def coordinate_string_def tile_def)
  have found: "auto_find_crop_neighbour registry \<noteq> Inl KeyError"
    by (simp add: auto_find_crop_neighbour_def source tile_step_size_IndexError [OF len])
  from step_size_needs_two_tiles [OF len, of "\<lparr>TILE_CROP_SIZE = 550, TILE_OVERLAP = - 7\<rparr>"
      "screenshots registry" "''map.jpeg''"] found len
  have "length (screenshots registry) < 2 \<and>
       tile_step_size registry = Inl IndexError \<and>
       composite_screenshot_tiles \<lparr>TILE_CROP_SIZE = 550, TILE_OVERLAP = - 7\<rparr> registry
         (screenshots registry) ''map.jpeg'' = (Inl IndexError, []) \<and>
       auto_find_crop_neighbour registry = Inl IndexError \<and>
       make_initial_tiles registry = Inl IndexError"
    by (simp add: tiles)
  then show ?thesis
    by (simp only: Let_def registry_def tile_def)
qed

end
